theory Spec2Isabelle
  imports Main
begin

section \<open>Values crossing the serialization boundary\<close>

text \<open>
  The model of the JavaScript values that \<^verbatim>\<open>serialization.ts\<close> inspects. Primitives are
  listed one by one (numbers are kept to the integers and \<^verbatim>\<open>NaN\<close>, which is all the
  truthiness test of \<^verbatim>\<open>_.filter\<close> distinguishes). An array is the list of its elements.
  An object is one link of a prototype chain: its kind (what \<^verbatim>\<open>typeof\<close> and
  \<^verbatim>\<open>_.isError\<close> see), its own properties in the order
  \<^verbatim>\<open>Object.getOwnPropertyNames\<close> reports them, and its prototype
  (\<^verbatim>\<open>Object.getPrototypeOf\<close>, \<open>None\<close> for \<^verbatim>\<open>null\<close>). An own property is
  \<^item> \<open>Data v\<close>, an enumerable data property, as an assignment or an object literal makes
    it;
  \<^item> \<open>Hidden v\<close>, a data property that is not enumerable, as the methods of the built-in
    prototypes, the \<^verbatim>\<open>length\<close> of a function or the \<^verbatim>\<open>message\<close> of an error;
  \<^item> \<open>Getter e g own heir\<close>, an accessor without a setter: \<open>e\<close> says whether it is
    enumerable (a getter of an object literal is, a getter of a class is not), \<open>g\<close>
    identifies the getter, so that its invocations can be counted, \<open>own\<close> is the outcome
    (a value, or a thrown error) of invoking it with the object that owns it as
    \<^verbatim>\<open>this\<close>, and \<open>heir\<close> the outcome with an object that inherits it as
    \<^verbatim>\<open>this\<close>;
  \<^item> \<open>ProtoAccessor\<close>, the accessor that \<^verbatim>\<open>Object.prototype\<close> has under the name
    \<^verbatim>\<open>__proto__\<close>: read, it gives the prototype of the object it is read on; written,
    it replaces that object's prototype.

  What the model leaves out: values are finite trees, without identity or cycles; a getter
  gives the same outcome on every invocation with the same kind of receiver; there are no
  other setters and no read-only data properties; names that look like array indices are
  not reordered; symbols are not property keys.
\<close>

datatype error = UNSERIALIZABLE | DataCloneError | TypeError

datatype kind = Plain | ErrorObject | Function

datatype val =
    VUndefined
  | VNull
  | VBool bool
  | VNumber int
  | VNaN
  | VString string
  | VBigInt int
  | VSymbol string
  | VArray "val list"
  | VObject obj
and obj = Obj kind "(string \<times> property) list" "obj option"
and property =
    Data val
  | Hidden val
  | Getter bool nat "error + val" "error + val"
  | ProtoAccessor

text \<open>What a run of the flattener does besides returning: its property reads invoke
  getters; the Oracle, applied to a value, invokes the getters that the clone primitive
  reads on that value; and the Oracle is applied to the value read for a property name.\<close>

datatype event = Invoke nat | OracleInvoke nat | Test string val

type_synonym 'a run = "(error + 'a) \<times> event list"

definition bind_run :: "'a run \<Rightarrow> ('a \<Rightarrow> 'b run) \<Rightarrow> 'b run" where
  "bind_run m f =
     (case m of
        (Inl e, t) \<Rightarrow> (Inl e, t)
      | (Inr x, t) \<Rightarrow> (case f x of (r, t') \<Rightarrow> (r, t @ t')))"

section \<open>The ambient environment\<close>

text \<open>
  The collaborators the module reads from its surroundings: \<^verbatim>\<open>window?.structuredClone\<close>
  (absent in old browsers), the ponyfill imported from core-js, \<^verbatim>\<open>Cypress.isBrowser\<close>,
  and the realm's \<^verbatim>\<open>Object.prototype\<close>, the prototype of every object literal
  \<^verbatim>\<open>{}\<close>. A clone primitive either returns the clone or throws. On its way it reads the
  enumerable own properties of the value it is handed, and so it invokes getters:
  \<open>Oracle_reads\<close> lists the getters that run inside one call of
  \<^verbatim>\<open>isSerializableInCurrentBrowser\<close> on a value, in order.
\<close>

record env =
  native_structuredClone :: "(val \<Rightarrow> error + val) option"
  structuredClonePonyfill :: "val \<Rightarrow> error + val"
  isBrowser :: "string \<Rightarrow> bool"
  Object_prototype :: obj
  Oracle_reads :: "val \<Rightarrow> nat list"

text \<open>\<^verbatim>\<open>const structuredCloneRef = window?.structuredClone || structuredClonePonyfill\<close>\<close>

definition structuredCloneRef :: "env \<Rightarrow> val \<Rightarrow> error + val" where
  "structuredCloneRef E =
     (case native_structuredClone E of
        Some f \<Rightarrow> f
      | None \<Rightarrow> structuredClonePonyfill E)"

text \<open>lodash's \<^verbatim>\<open>_.isError\<close>, \<^verbatim>\<open>_.isArray\<close> and \<^verbatim>\<open>_.isObject\<close>; the last one is
  true of every non-null value whose \<^verbatim>\<open>typeof\<close> is \<^verbatim>\<open>'object'\<close> or
  \<^verbatim>\<open>'function'\<close>. The model reads \<^verbatim>\<open>_.isError\<close> off the kind of the object
  alone: lodash also takes for an error an object that is not a plain one and has strings
  under \<^verbatim>\<open>message\<close> and \<^verbatim>\<open>name\<close>, which the model does not follow.\<close>

fun isError :: "val \<Rightarrow> bool" where
  "isError (VObject (Obj ErrorObject ps p)) = True"
| "isError v = False"

fun isArray :: "val \<Rightarrow> bool" where
  "isArray (VArray xs) = True"
| "isArray v = False"

fun isObject :: "val \<Rightarrow> bool" where
  "isObject (VArray xs) = True"
| "isObject (VObject ob) = True"
| "isObject v = False"

text \<open>JavaScript truthiness, which decides what \<^verbatim>\<open>_.filter\<close> keeps.\<close>

fun truthy :: "val \<Rightarrow> bool" where
  "truthy VUndefined = False"
| "truthy VNull = False"
| "truthy (VBool b) = b"
| "truthy (VNumber n) = (n \<noteq> 0)"
| "truthy VNaN = False"
| "truthy (VString s) = (s \<noteq> [])"
| "truthy (VBigInt n) = (n \<noteq> 0)"
| "truthy (VSymbol s) = True"
| "truthy (VArray xs) = True"
| "truthy (VObject ob) = True"

section \<open>isSerializableInCurrentBrowser\<close>

text \<open>
  The \<^verbatim>\<open>try\<close> block calls the clone primitive; a throw lands in \<^verbatim>\<open>catch\<close> and
  gives \<^verbatim>\<open>false\<close>. The comparison \<^verbatim>\<open>structuredCloneRef !== window?.structuredClone\<close>
  holds exactly when there is no native primitive.
\<close>

definition isSerializableInCurrentBrowser :: "env \<Rightarrow> val \<Rightarrow> bool" where
  "isSerializableInCurrentBrowser E v =
     (case structuredCloneRef E v of
        Inl e \<Rightarrow> False
      | Inr c \<Rightarrow>
          if isBrowser E ''firefox'' \<and> isError v \<and> native_structuredClone E = None
          then False
          else True)"

section \<open>Reading and writing properties\<close>

text \<open>Reading \<^verbatim>\<open>o[name]\<close>: the nearest link with an own property of that name answers;
  a getter is invoked, with the object the read started on as \<^verbatim>\<open>this\<close>; the
  \<^verbatim>\<open>__proto__\<close> accessor answers with the prototype of the object the read started
  on; a name found nowhere reads as \<^verbatim>\<open>undefined\<close>. \<open>receiver\<close> is the object the
  read started on, the second argument the link the search has reached.\<close>

fun protoValue :: "obj \<Rightarrow> val" where
  "protoValue (Obj k ps None) = VNull"
| "protoValue (Obj k ps (Some q)) = VObject q"

fun getFrom :: "obj \<Rightarrow> obj \<Rightarrow> string \<Rightarrow> val run" where
  "getFrom receiver (Obj k ps p) name =
     (case map_of ps name of
        Some (Data v) \<Rightarrow> (Inr v, [])
      | Some (Hidden v) \<Rightarrow> (Inr v, [])
      | Some (Getter e g own heir) \<Rightarrow>
          (if receiver = Obj k ps p then own else heir, [Invoke g])
      | Some ProtoAccessor \<Rightarrow> (Inr (protoValue receiver), [])
      | None \<Rightarrow> (case p of None \<Rightarrow> (Inr VUndefined, []) | Some q \<Rightarrow> getFrom receiver q name))"

definition getProp :: "obj \<Rightarrow> string \<Rightarrow> val run" where
  "getProp ob name = getFrom ob ob name"

text \<open>The own property that answers \<^verbatim>\<open>o[name]\<close>, if any.\<close>

fun resolve :: "obj \<Rightarrow> string \<Rightarrow> property option" where
  "resolve (Obj k ps None) name = map_of ps name"
| "resolve (Obj k ps (Some q)) name =
     (case map_of ps name of Some pr \<Rightarrow> Some pr | None \<Rightarrow> resolve q name)"

text \<open>Writing \<^verbatim>\<open>o[key] = v\<close>, in strict mode as in every module: when the name
  resolves to a getter, which has no setter, the assignment throws; when it resolves to the
  \<^verbatim>\<open>__proto__\<close> accessor, an object or \<^verbatim>\<open>null\<close> becomes the prototype of
  \<^verbatim>\<open>o\<close> and any other value is ignored (an array, which the model does not have
  as a prototype, with them); otherwise \<^verbatim>\<open>o\<close> gets an own data property, replaced
  in place when it has one of that name and added last when not.\<close>

fun setOwn :: "string \<Rightarrow> val \<Rightarrow> (string \<times> property) list \<Rightarrow> (string \<times> property) list" where
  "setOwn key v [] = [(key, Data v)]"
| "setOwn key v ((n, q) # ps) = (if n = key then (key, Data v) # ps else (n, q) # setOwn key v ps)"

fun setPrototype :: "obj \<Rightarrow> val \<Rightarrow> obj" where
  "setPrototype (Obj k ps p) (VObject q) = Obj k ps (Some q)"
| "setPrototype (Obj k ps p) VNull = Obj k ps None"
| "setPrototype (Obj k ps p) v = Obj k ps p"

fun addOwn :: "obj \<Rightarrow> string \<Rightarrow> val \<Rightarrow> obj" where
  "addOwn (Obj k ps p) key v = Obj k (setOwn key v ps) p"

definition setProp :: "obj \<Rightarrow> string \<Rightarrow> val \<Rightarrow> error + obj" where
  "setProp ob key v =
     (case resolve ob key of
        Some (Getter e g own heir) \<Rightarrow> Inl TypeError
      | Some ProtoAccessor \<Rightarrow> Inr (setPrototype ob v)
      | Some (Data w) \<Rightarrow> Inr (addOwn ob key v)
      | Some (Hidden w) \<Rightarrow> Inr (addOwn ob key v)
      | None \<Rightarrow> Inr (addOwn ob key v))"

fun getOwnPropertyNames :: "obj \<Rightarrow> string list" where
  "getOwnPropertyNames (Obj k ps p) = map fst ps"

section \<open>convertObjectToSerializableLiteral\<close>

text \<open>The body of \<^verbatim>\<open>props.forEach\<close> inside the loop: a name not yet in
  \<^verbatim>\<open>allProps\<close> is read on the current link, the Oracle is applied to the value (and
  runs the getters it reads there), and the name is pushed when the test passes.\<close>

fun scanProps :: "env \<Rightarrow> obj \<Rightarrow> string list \<Rightarrow> string list \<Rightarrow> string list run" where
  "scanProps E currentObjectRef [] allProps = (Inr allProps, [])"
| "scanProps E currentObjectRef (prop # props) allProps =
     (if prop \<in> set allProps then scanProps E currentObjectRef props allProps
      else bind_run (getProp currentObjectRef prop) (\<lambda>v.
        bind_run (Inr (), map OracleInvoke (Oracle_reads E v) @ [Test prop v]) (\<lambda>_.
          scanProps E currentObjectRef props
            (if isSerializableInCurrentBrowser E v then allProps @ [prop] else allProps))))"

text \<open>The \<^verbatim>\<open>do ... while (currentObjectRef)\<close> loop over the prototype chain: the
  first equation is the last round, where \<^verbatim>\<open>Object.getPrototypeOf\<close> gives
  \<^verbatim>\<open>null\<close>, the second one a round that is followed by the round of the
  prototype.\<close>

fun walkChain :: "env \<Rightarrow> obj \<Rightarrow> string list \<Rightarrow> string list run" where
  "walkChain E (Obj k ps None) allProps =
     scanProps E (Obj k ps None) (getOwnPropertyNames (Obj k ps None)) allProps"
| "walkChain E (Obj k ps (Some q)) allProps =
     bind_run (scanProps E (Obj k ps (Some q)) (getOwnPropertyNames (Obj k ps (Some q))) allProps)
       (\<lambda>allProps'. walkChain E q allProps')"

text \<open>The second \<^verbatim>\<open>forEach\<close>: \<^verbatim>\<open>objectAsLiteral[key] = obj[key]\<close>. The literal
  starts as \<^verbatim>\<open>{}\<close>, an object without own properties whose prototype is
  \<^verbatim>\<open>Object.prototype\<close>. When the walk has reached \<^verbatim>\<open>Object.prototype\<close> and
  accepted the name \<^verbatim>\<open>__proto__\<close> there (read on \<^verbatim>\<open>Object.prototype\<close> the
  accessor gives \<^verbatim>\<open>null\<close>), the assignment under that name gives the literal the
  prototype of \<^verbatim>\<open>obj\<close>.\<close>

fun copyProps :: "obj \<Rightarrow> string list \<Rightarrow> obj \<Rightarrow> obj run" where
  "copyProps ob [] objectAsLiteral = (Inr objectAsLiteral, [])"
| "copyProps ob (key # keys) objectAsLiteral =
     bind_run (getProp ob key) (\<lambda>v.
       bind_run (setProp objectAsLiteral key v, []) (\<lambda>objectAsLiteral'.
         copyProps ob keys objectAsLiteral'))"

definition convertObjectToSerializableLiteral_run :: "env \<Rightarrow> obj \<Rightarrow> obj run" where
  "convertObjectToSerializableLiteral_run E ob =
     bind_run (walkChain E ob []) (\<lambda>allProps.
       copyProps ob allProps (Obj Plain [] (Some (Object_prototype E))))"

definition convertObjectToSerializableLiteral :: "env \<Rightarrow> obj \<Rightarrow> error + obj" where
  "convertObjectToSerializableLiteral E ob = fst (convertObjectToSerializableLiteral_run E ob)"

section \<open>omitUnserializablePropertiesFromObj\<close>

text \<open>
  lodash's \<^verbatim>\<open>_.pickBy(object, predicate)\<close>, after its source (4.17.21). The keys are
  those of \<^verbatim>\<open>keysIn\<close>, which go back to what \<^verbatim>\<open>for (key in object)\<close> visits:
  the enumerable own keys and then the enumerable keys of each prototype that no nearer
  link has under the same name, enumerable or not.
\<close>

fun enumerable :: "property \<Rightarrow> bool" where
  "enumerable (Data v) = True"
| "enumerable (Hidden v) = False"
| "enumerable (Getter e g own heir) = e"
| "enumerable ProtoAccessor = False"

fun forIn :: "obj \<Rightarrow> string list \<Rightarrow> string list" where
  "forIn (Obj k ps None) seen =
     filter (\<lambda>key. key \<notin> set seen) (map fst (filter (\<lambda>np. enumerable (snd np)) ps))"
| "forIn (Obj k ps (Some q)) seen =
     filter (\<lambda>key. key \<notin> set seen) (map fst (filter (\<lambda>np. enumerable (snd np)) ps))
       @ forIn q (seen @ map fst ps)"

text \<open>
  \<^verbatim>\<open>keysIn\<close> asks \<^verbatim>\<open>isArrayLike\<close> first, which reads \<^verbatim>\<open>object.length\<close>:
  an object that is not a function and has a valid length there gets the keys of
  \<^verbatim>\<open>arrayLikeKeys(object, true)\<close>, all that \<^verbatim>\<open>for ... in\<close> visits; any other
  object gets those of \<^verbatim>\<open>baseKeysIn\<close>, which leaves out an inherited
  \<^verbatim>\<open>constructor\<close>. (\<^verbatim>\<open>baseKeysIn\<close> also leaves out the \<^verbatim>\<open>constructor\<close> of
  an object that is the prototype of its own constructor, which a value without identity
  cannot say; and \<^verbatim>\<open>arrayLikeKeys\<close> lists the indices first for what lodash takes for
  an array, an arguments object, a buffer or a typed array, none of which is an object of
  this model.)
\<close>

fun isLength :: "val \<Rightarrow> bool" where
  "isLength (VNumber n) = (0 \<le> n \<and> n \<le> 9007199254740991)"
| "isLength v = False"

fun isFunction :: "obj \<Rightarrow> bool" where
  "isFunction (Obj k ps p) = (k = Function)"

definition isArrayLike :: "obj \<Rightarrow> error + bool" where
  "isArrayLike ob =
     (case fst (getProp ob ''length'') of
        Inl e \<Rightarrow> Inl e
      | Inr len \<Rightarrow> Inr (isLength len \<and> \<not> isFunction ob))"

definition arrayLikeKeys :: "obj \<Rightarrow> string list" where
  "arrayLikeKeys ob = forIn ob []"

definition baseKeysIn :: "obj \<Rightarrow> string list" where
  "baseKeysIn ob =
     filter (\<lambda>key. \<not> (key = ''constructor'' \<and> key \<notin> set (getOwnPropertyNames ob))) (forIn ob [])"

definition keysIn :: "obj \<Rightarrow> error + string list" where
  "keysIn ob =
     (case isArrayLike ob of
        Inl e \<Rightarrow> Inl e
      | Inr arrayLike \<Rightarrow> Inr (if arrayLike then arrayLikeKeys ob else baseKeysIn ob))"

text \<open>
  \<^verbatim>\<open>basePickBy\<close> reads \<^verbatim>\<open>object[key]\<close> for each key, calls the predicate with the
  value and the key, and hands an accepted entry to \<^verbatim>\<open>baseSet\<close>. \<^verbatim>\<open>baseSet\<close>
  returns at once for the keys \<^verbatim>\<open>__proto__\<close>, \<^verbatim>\<open>constructor\<close> and
  \<^verbatim>\<open>prototype\<close>, and assigns \<^verbatim>\<open>result[key] = value\<close> for every other key. lodash
  is not strict-mode code: an assignment under a name that resolves to a getter does
  nothing. A throw of a getter of the object leaves \<^verbatim>\<open>_.pickBy\<close>.
\<close>

definition lodashAssign :: "obj \<Rightarrow> string \<Rightarrow> val \<Rightarrow> obj" where
  "lodashAssign ob key v =
     (case resolve ob key of
        Some (Getter e g own heir) \<Rightarrow> ob
      | Some ProtoAccessor \<Rightarrow> setPrototype ob v
      | Some (Data w) \<Rightarrow> addOwn ob key v
      | Some (Hidden w) \<Rightarrow> addOwn ob key v
      | None \<Rightarrow> addOwn ob key v)"

definition baseSet :: "obj \<Rightarrow> string \<Rightarrow> val \<Rightarrow> obj" where
  "baseSet result key v =
     (if key = ''__proto__'' \<or> key = ''constructor'' \<or> key = ''prototype'' then result
      else lodashAssign result key v)"

fun basePickBy :: "obj \<Rightarrow> string list \<Rightarrow> (val \<Rightarrow> string \<Rightarrow> bool) \<Rightarrow> obj \<Rightarrow> error + obj" where
  "basePickBy ob [] predicate result = Inr result"
| "basePickBy ob (key # keys) predicate result =
     (case fst (getProp ob key) of
        Inl e \<Rightarrow> Inl e
      | Inr v \<Rightarrow>
          basePickBy ob keys predicate (if predicate v key then baseSet result key v else result))"

definition pickBy :: "env \<Rightarrow> obj \<Rightarrow> (val \<Rightarrow> string \<Rightarrow> bool) \<Rightarrow> error + obj" where
  "pickBy E ob predicate =
     (case keysIn ob of
        Inl e \<Rightarrow> Inl e
      | Inr keys \<Rightarrow> basePickBy ob keys predicate (Obj Plain [] (Some (Object_prototype E))))"

definition omitUnserializablePropertiesFromObj :: "env \<Rightarrow> obj \<Rightarrow> error + obj" where
  "omitUnserializablePropertiesFromObj E objectToSanitize =
     pickBy E objectToSanitize (\<lambda>v key. isSerializableInCurrentBrowser E v)"

text \<open>The object literal with the given entries, \<^verbatim>\<open>{ k1: v1, ..., kn: vn }\<close>: a flat
  mapping.\<close>

definition objectLiteral :: "env \<Rightarrow> (string \<times> val) list \<Rightarrow> obj" where
  "objectLiteral E m = Obj Plain (map (\<lambda>kv. (fst kv, Data (snd kv))) m) (Some (Object_prototype E))"

section \<open>preprocessErrorsForSerialization\<close>

text \<open>lodash's \<^verbatim>\<open>_.filter(array, predicate)\<close>: the predicate is called on each element
  in turn; an element is kept, as it is, when the predicate returns a truthy value; a
  throw of the predicate leaves the loop.\<close>

fun lodash_filter :: "val list \<Rightarrow> (val \<Rightarrow> error + val) \<Rightarrow> error + val list" where
  "lodash_filter [] predicate = Inr []"
| "lodash_filter (x # xs) predicate =
     (case predicate x of
        Inl e \<Rightarrow> Inl e
      | Inr r \<Rightarrow>
          (case lodash_filter xs predicate of
             Inl e \<Rightarrow> Inl e
           | Inr ys \<Rightarrow> Inr (if truthy r then x # ys else ys)))"

text \<open>
  \<^verbatim>\<open>_.isArray\<close> first, then \<^verbatim>\<open>_.isObject\<close>, then the test of the value itself.
  \<open>filterWithPreprocess\<close> is the loop of \<^verbatim>\<open>_.filter\<close> with the function itself as the
  predicate, which is how the source calls it; nothing catches a throw of the recursive
  call. The \<^verbatim>\<open>catch\<close> around the flattener replaces whatever was thrown by
  \<^verbatim>\<open>UNSERIALIZABLE\<close>.
\<close>

fun preprocessErrorsForSerialization :: "env \<Rightarrow> val \<Rightarrow> error + val"
  and filterWithPreprocess :: "env \<Rightarrow> val list \<Rightarrow> error + val list" where
  "preprocessErrorsForSerialization E (VArray xs) =
     (case filterWithPreprocess E xs of
        Inl e \<Rightarrow> Inl e
      | Inr ys \<Rightarrow> Inr (VArray ys))"
| "preprocessErrorsForSerialization E (VObject ob) =
     (case convertObjectToSerializableLiteral E ob of
        Inl err \<Rightarrow> Inl UNSERIALIZABLE
      | Inr sanitizedValue \<Rightarrow> Inr (VObject sanitizedValue))"
| "preprocessErrorsForSerialization E v =
     (if \<not> isSerializableInCurrentBrowser E v then Inl UNSERIALIZABLE else Inr v)"
| "filterWithPreprocess E [] = Inr []"
| "filterWithPreprocess E (x # xs) =
     (case preprocessErrorsForSerialization E x of
        Inl e \<Rightarrow> Inl e
      | Inr r \<Rightarrow>
          (case filterWithPreprocess E xs of
             Inl e \<Rightarrow> Inl e
           | Inr ys \<Rightarrow> Inr (if truthy r then x # ys else ys)))"

text \<open>The third branch is reached by the values that are neither arrays nor objects.\<close>

definition isScalar :: "val \<Rightarrow> bool" where
  "isScalar v = (\<not> isArray v \<and> \<not> isObject v)"

section \<open>A concrete realm, for evaluating the functions\<close>

text \<open>
  An excerpt of the structured clone algorithm, result and reads together: it throws
  \<^verbatim>\<open>DataCloneError\<close> on a symbol and on a function; on an array it clones the
  elements; of an error object it takes \<^verbatim>\<open>name\<close>, which it reads as a property,
  and the own \<^verbatim>\<open>message\<close> and \<^verbatim>\<open>stack\<close>, and nothing else; on any other
  object it clones the values of the enumerable own properties, in order, and invokes an
  enumerable own getter, with the object as \<^verbatim>\<open>this\<close>, to clone what it returns; it
  stops at the first throw. The first component says whether the clone succeeds, the
  second lists the getters invoked. Firefox's native primitive also refuses error
  objects.
\<close>

fun invoked :: "event list \<Rightarrow> nat list" where
  "invoked [] = []"
| "invoked (Invoke g # t) = g # invoked t"
| "invoked (OracleInvoke g # t) = invoked t"
| "invoked (Test name v # t) = invoked t"

definition sca_error :: "obj \<Rightarrow> bool \<times> nat list" where
  "sca_error ob =
     (case getProp ob ''name'' of
        (Inl e, t) \<Rightarrow> (False, invoked t)
      | (Inr name, t) \<Rightarrow> (True, invoked t))"

definition andThen :: "bool \<times> nat list \<Rightarrow> bool \<times> nat list \<Rightarrow> bool \<times> nat list" where
  "andThen a b =
     (case a of
        (False, r) \<Rightarrow> (False, r)
      | (True, r) \<Rightarrow> (case b of (ok, r') \<Rightarrow> (ok, r @ r')))"

fun sca :: "val \<Rightarrow> bool \<times> nat list"
  and sca_list :: "val list \<Rightarrow> bool \<times> nat list"
  and sca_obj :: "obj \<Rightarrow> bool \<times> nat list"
  and sca_props :: "(string \<times> property) list \<Rightarrow> bool \<times> nat list"
  and sca_property :: "property \<Rightarrow> bool \<times> nat list" where
  "sca (VSymbol s) = (False, [])"
| "sca (VArray xs) = sca_list xs"
| "sca (VObject ob) = sca_obj ob"
| "sca VUndefined = (True, [])"
| "sca VNull = (True, [])"
| "sca (VBool b) = (True, [])"
| "sca (VNumber n) = (True, [])"
| "sca VNaN = (True, [])"
| "sca (VString s) = (True, [])"
| "sca (VBigInt n) = (True, [])"
| "sca_list [] = (True, [])"
| "sca_list (x # xs) = andThen (sca x) (sca_list xs)"
| "sca_obj (Obj k ps p) =
     (if k = Function then (False, [])
      else if k = ErrorObject then sca_error (Obj k ps p)
      else sca_props ps)"
| "sca_props [] = (True, [])"
| "sca_props (np # ps) = andThen (sca_property (snd np)) (sca_props ps)"
| "sca_property (Data v) = sca v"
| "sca_property (Hidden v) = (True, [])"
| "sca_property (Getter e g own heir) =
     (if e then andThen (True, [g]) (case own of Inl err \<Rightarrow> (False, []) | Inr v \<Rightarrow> sca v)
      else (True, []))"
| "sca_property ProtoAccessor = (True, [])"

definition cloneable :: "val \<Rightarrow> bool" where
  "cloneable v = fst (sca v)"

definition structuredClone_chromium :: "val \<Rightarrow> error + val" where
  "structuredClone_chromium v = (if cloneable v then Inr v else Inl DataCloneError)"


definition structuredClone_reads :: "val \<Rightarrow> nat list" where
  "structuredClone_reads v = snd (sca v)"

text \<open>A built-in function, and an excerpt of \<^verbatim>\<open>Object.prototype\<close>: its methods are not
  enumerable.\<close>

definition builtin :: val where
  "builtin = VObject (Obj Function [] None)"

definition example_Object_prototype :: obj where
  "example_Object_prototype =
     Obj Plain [(''constructor'', Hidden builtin), (''hasOwnProperty'', Hidden builtin),
                (''toString'', Hidden builtin), (''valueOf'', Hidden builtin),
                (''__proto__'', ProtoAccessor), (''toLocaleString'', Hidden builtin)] None"

definition chromium :: env where
  "chromium = \<lparr> native_structuredClone = Some structuredClone_chromium,
                 structuredClonePonyfill = structuredClone_chromium,
                 isBrowser = (\<lambda>name. name = ''chrome''),
                 Object_prototype = example_Object_prototype,
                 Oracle_reads = structuredClone_reads \<rparr>"




definition proto_y :: obj where
  "proto_y = Obj Plain [(''y'', Data (VNumber 2))] (Some example_Object_prototype)"

definition inherited :: obj where
  "inherited = Obj Plain [(''x'', Data (VNumber 1))] (Some proto_y)"

definition proto_x :: obj where
  "proto_x = Obj Plain [(''x'', Data (VNumber 1))] (Some example_Object_prototype)"

definition shadowing :: obj where
  "shadowing = Obj Plain [(''x'', Data builtin)] (Some proto_x)"

definition shadowing_bare :: obj where
  "shadowing_bare = Obj Plain [(''x'', Data builtin)]
     (Some (Obj Plain [(''x'', Data (VNumber 1))] None))"




definition A_prototype :: obj where
  "A_prototype =
     Obj Plain [(''constructor'', Hidden builtin),
                (''v'', Getter False 9 (Inr VUndefined) (Inr (VSymbol ''s'')))]
       (Some example_Object_prototype)"

definition instance_of_A :: obj where
  "instance_of_A = Obj Plain [(''w'', Data (VSymbol ''s''))] (Some A_prototype)"

definition example_Function_prototype :: obj where
  "example_Function_prototype = Obj Function
     [(''length'', Hidden (VNumber 0)), (''name'', Hidden (VString [])),
      (''arguments'', Getter False 1 (Inl TypeError) (Inl TypeError)),
      (''caller'', Getter False 2 (Inl TypeError) (Inl TypeError)),
      (''constructor'', Hidden builtin), (''apply'', Hidden builtin), (''bind'', Hidden builtin),
      (''call'', Hidden builtin), (''toString'', Hidden builtin)]
     (Some example_Object_prototype)"

definition prototype_of_f :: val where
  "prototype_of_f =
     VObject (Obj Plain [(''constructor'', Hidden builtin)] (Some example_Object_prototype))"

definition sloppy_function :: val where
  "sloppy_function = VObject (Obj Function
     [(''length'', Hidden (VNumber 0)), (''name'', Hidden (VString ''f'')),
      (''arguments'', Hidden VNull), (''caller'', Hidden VNull),
      (''prototype'', Hidden prototype_of_f)]
     (Some example_Function_prototype))"

definition strict_function :: val where
  "strict_function = VObject (Obj Function
     [(''length'', Hidden (VNumber 0)), (''name'', Hidden (VString ''f''))]
     (Some example_Function_prototype))"

section \<open>Notions the properties are stated with\<close>




text \<open>Replaying the tests of a run over a list of accepted names: a passed test appends
  its name; the replay fails if a name is tested that is already accepted.\<close>

fun replay :: "env \<Rightarrow> string list \<Rightarrow> event list \<Rightarrow> string list option" where
  "replay E a [] = Some a"
| "replay E a (Invoke g # t) = replay E a t"
| "replay E a (OracleInvoke g # t) = replay E a t"
| "replay E a (Test name v # t) =
     (if name \<in> set a then None
      else replay E (if isSerializableInCurrentBrowser E v then a @ [name] else a) t)"

text \<open>Whether a run holds a passed test of a name.\<close>

fun passed :: "env \<Rightarrow> string \<Rightarrow> event list \<Rightarrow> bool" where
  "passed E name [] = False"
| "passed E name (Invoke g # t) = passed E name t"
| "passed E name (OracleInvoke g # t) = passed E name t"
| "passed E name (Test m v # t) =
     ((m = name \<and> isSerializableInCurrentBrowser E v) \<or> passed E name t)"

text \<open>How often a run invoked the getter \<open>g\<close>: through a property read of the flattener,
  inside the Oracle, and in all. \<open>readsOfTests\<close> is what the Oracle reads of \<open>g\<close> on the
  values that a run tests.\<close>

definition propertyReads :: "nat \<Rightarrow> event list \<Rightarrow> nat" where
  "propertyReads g t = count_list t (Invoke g)"

definition oracleInvocations :: "nat \<Rightarrow> event list \<Rightarrow> nat" where
  "oracleInvocations g t = count_list t (OracleInvoke g)"


fun readsOfTests :: "env \<Rightarrow> nat \<Rightarrow> event list \<Rightarrow> nat" where
  "readsOfTests E g [] = 0"
| "readsOfTests E g (Invoke h # t) = readsOfTests E g t"
| "readsOfTests E g (OracleInvoke h # t) = readsOfTests E g t"
| "readsOfTests E g (Test m v # t) = count_list (Oracle_reads E v) g + readsOfTests E g t"



section \<open>Facts about the building blocks\<close>

lemma filterWithPreprocess_lodash_filter:
  "filterWithPreprocess E xs = lodash_filter xs (preprocessErrorsForSerialization E)"
  by (induction xs) (simp_all split: sum.splits)

lemma filterWithPreprocess_Inr:
  "filterWithPreprocess E xs = Inr ys \<Longrightarrow>
   ys = filter (\<lambda>x. \<exists>r. preprocessErrorsForSerialization E x = Inr r \<and> truthy r) xs"
  by (induction xs arbitrary: ys) (auto split: sum.splits if_splits)

lemma filterWithPreprocess_Inr_all:
  "filterWithPreprocess E xs = Inr ys \<Longrightarrow> x \<in> set xs \<Longrightarrow>
   \<exists>r. preprocessErrorsForSerialization E x = Inr r"
  by (induction xs arbitrary: ys) (auto split: sum.splits if_splits)

lemma preprocess_scalar:
  "isScalar v \<Longrightarrow> preprocessErrorsForSerialization E v =
     (if isSerializableInCurrentBrowser E v then Inr v else Inl UNSERIALIZABLE)"
  by (cases v) (simp_all add: isScalar_def)

text \<open>The \<^verbatim>\<open>catch\<close> of the composite branch at work: flattening a strict function
  reaches the throwing accessor \<^verbatim>\<open>arguments\<close> of \<^verbatim>\<open>Function.prototype\<close>.\<close>

lemma strict_function_raises:
  "preprocessErrorsForSerialization chromium strict_function = Inl UNSERIALIZABLE"
  by code_simp

text \<open>What the flattener returns for an object that inherits from
  \<^verbatim>\<open>Object.prototype\<close>: the accepted names as own data properties, over the prototype
  of the object itself. Flattening the object whose own \<^verbatim>\<open>x\<close>, a function, shadows
  the number of its prototype gives a record equal to the object.\<close>

lemma flattened_inherited:
  "convertObjectToSerializableLiteral chromium inherited
     = Inr (Obj Plain [(''x'', Data (VNumber 1)), (''y'', Data (VNumber 2))] (Some proto_y))"
  by code_simp

lemma flattened_shadowing:
  "convertObjectToSerializableLiteral chromium shadowing = Inr shadowing"
  by code_simp

lemma isScalar_primitive:
  "isScalar v = (v \<in> {VUndefined, VNull, VNaN} \<or> (\<exists>b. v = VBool b) \<or> (\<exists>n. v = VNumber n)
     \<or> (\<exists>s. v = VString s) \<or> (\<exists>n. v = VBigInt n) \<or> (\<exists>s. v = VSymbol s))"
  by (cases v) (simp_all add: isScalar_def)

text \<open>Where the value tested and the value copied differ through the receiver of a
  getter: for an instance of \<^verbatim>\<open>class A { get v () { return this.w } }\<close> whose
  \<^verbatim>\<open>w\<close> is a symbol, the getter is found on \<^verbatim>\<open>A.prototype\<close> and run there, with
  \<^verbatim>\<open>A.prototype\<close> as \<^verbatim>\<open>this\<close>: the Oracle sees \<^verbatim>\<open>undefined\<close>, and the copy
  reads the symbol.\<close>

lemma flattened_instance_of_A:
  "convertObjectToSerializableLiteral chromium instance_of_A
     = Inr (Obj Plain [(''v'', Data (VSymbol ''s''))] (Some A_prototype))
   \<and> filter (\<lambda>e. e = Test ''v'' VUndefined \<or> e = Test ''v'' (VSymbol ''s''))
        (snd (convertObjectToSerializableLiteral_run chromium instance_of_A))
     = [Test ''v'' VUndefined]"
  by code_simp

text \<open>\<^verbatim>\<open>_.pickBy\<close> on an object that inherits an enumerable property picks it too.\<close>

lemma omit_picks_inherited:
  "omitUnserializablePropertiesFromObj chromium inherited
     = Inr (objectLiteral chromium [(''x'', VNumber 1), (''y'', VNumber 2)])"
  by code_simp

section \<open>Counting getter invocations\<close>

lemma propertyReads_simps [simp]:
  "propertyReads g [] = 0"
  "propertyReads g (Invoke h # t) = (if h = g then 1 else 0) + propertyReads g t"
  "propertyReads g (OracleInvoke h # t) = propertyReads g t"
  "propertyReads g (Test m v # t) = propertyReads g t"
  "propertyReads g (t @ u) = propertyReads g t + propertyReads g u"
  by (simp_all add: propertyReads_def)

lemma propertyReads_OracleInvokes [simp]: "propertyReads g (map OracleInvoke hs) = 0"
  by (induction hs) simp_all


lemma snd_bind_run:
  "snd (bind_run m f) =
     (case m of (Inl e, t) \<Rightarrow> t | (Inr x, t) \<Rightarrow> t @ snd (f x))"
  by (auto simp: bind_run_def split: prod.splits sum.splits)

text \<open>The events of a property read: the invocation of the getter the name resolves
  to, if it resolves to one.\<close>

lemma getFrom_trace:
  "snd (getFrom receiver holder name) =
     (case resolve holder name of
        Some (Getter e g own heir) \<Rightarrow> [Invoke g]
      | _ \<Rightarrow> [])"
  by (induction holder name rule: resolve.induct) (simp_all split: option.splits property.splits)


lemma getProp_trace:
  "snd (getProp ob m) = [] \<or> (\<exists>g. snd (getProp ob m) = [Invoke g])"
  by (simp add: getProp_def getFrom_trace split: option.splits property.splits)



















section \<open>The tests of a run\<close>


lemma replay_getProp: "replay E a (snd (getProp ob m)) = Some a"
  using getProp_trace [of ob m] by auto

lemma replay_OracleInvokes [simp]: "replay E a (map OracleInvoke hs @ t) = replay E a t"
  by (induction hs) simp_all

lemma replay_OracleInvokes_only [simp]: "replay E a (map OracleInvoke hs) = Some a"
  by (induction hs) simp_all

lemma replay_append:
  "replay E a (t @ u) = (case replay E a t of None \<Rightarrow> None | Some b \<Rightarrow> replay E b u)"
proof (induction t arbitrary: a)
  case Nil
  show ?case by simp
next
  case (Cons e t)
  then show ?case by (cases e) simp_all
qed


lemma copyProps_replay: "replay E a (snd (copyProps ob keys lit0)) = Some a"
proof (induction keys arbitrary: lit0)
  case Nil
  show ?case by simp
next
  case (Cons key keys)
  obtain r t1 where g: "getProp ob key = (r, t1)" by (cases "getProp ob key")
  from replay_getProp [of E a ob key] g have t1: "replay E a t1 = Some a" by simp
  show ?case
  proof (cases r)
    case (Inl e)
    with g t1 show ?thesis by (simp add: snd_bind_run)
  next
    case (Inr w)
    with g t1 Cons.IH show ?thesis
      by (cases "setProp lit0 key w") (simp_all add: snd_bind_run replay_append)
  qed
qed






lemma passed_OracleInvokes [simp]: "passed E n (map OracleInvoke hs @ t) = passed E n t"
  by (induction hs) simp_all

section \<open>What the Oracle invokes\<close>

lemma oracleInvocations_simps [simp]:
  "oracleInvocations g [] = 0"
  "oracleInvocations g (Invoke h # t) = oracleInvocations g t"
  "oracleInvocations g (OracleInvoke h # t) = (if h = g then 1 else 0) + oracleInvocations g t"
  "oracleInvocations g (Test m v # t) = oracleInvocations g t"
  "oracleInvocations g (t @ u) = oracleInvocations g t + oracleInvocations g u"
  by (simp_all add: oracleInvocations_def)

lemma oracleInvocations_OracleInvokes [simp]:
  "oracleInvocations g (map OracleInvoke hs) = count_list hs g"
  by (induction hs) simp_all

lemma readsOfTests_append [simp]:
  "readsOfTests E g (t @ u) = readsOfTests E g t + readsOfTests E g u"
proof (induction t)
  case Nil
  show ?case by simp
next
  case (Cons e t)
  then show ?case by (cases e) simp_all
qed

lemma readsOfTests_OracleInvokes [simp]: "readsOfTests E g (map OracleInvoke hs) = 0"
  by (induction hs) simp_all






section \<open>Picking from an object literal\<close>

















section \<open>The claims\<close>




text \<open>
  C2: every element kept in the output sequence is the sanitized form of that element; a
  composite element appears flattened. The code keeps the element itself: \<^verbatim>\<open>_.filter\<close>
  uses the sanitized value only to decide, by its truthiness, whether the element stays.
  On \<open>[o]\<close>, with \<open>o\<close> an object that inherits \<^verbatim>\<open>y\<close>, the output is \<open>[o]\<close>, while
  sanitizing \<open>o\<close> alone gives a record that has both \<^verbatim>\<open>x\<close> and \<^verbatim>\<open>y\<close> as its
  own (and, the name \<^verbatim>\<open>__proto__\<close> having been accepted and assigned, the prototype
  of \<open>o\<close>).
\<close>

theorem C2_array_keeps_original_element:
  "preprocessErrorsForSerialization chromium (VArray [VObject inherited])
     = Inr (VArray [VObject inherited])
   \<and> preprocessErrorsForSerialization chromium (VObject inherited)
     = Inr (VObject (Obj Plain [(''x'', Data (VNumber 1)), (''y'', Data (VNumber 2))]
              (Some proto_y)))
   \<and> Obj Plain [(''x'', Data (VNumber 1)), (''y'', Data (VNumber 2))] (Some proto_y)
       \<noteq> inherited"
  by code_simp

text \<open>
  C3: every value stored in the record the flattener builds passes the Oracle, also when
  instance and prototype have a property of the same name. The code stores a function
  under \<^verbatim>\<open>x\<close> for the object whose own \<^verbatim>\<open>x\<close> is a function and whose prototype's
  \<^verbatim>\<open>x\<close> is 1: the name is accepted on the prototype's value and the copy reads the
  instance.
\<close>

theorem C3_record_holds_rejected_value:
  "convertObjectToSerializableLiteral chromium shadowing
     = Inr (Obj Plain [(''x'', Data builtin)] (Some proto_x))
   \<and> \<not> isSerializableInCurrentBrowser chromium builtin"
  by code_simp


text \<open>
  C5 (as the specification states it): every scalar, functions included, is returned
  unchanged when the Oracle accepts it and raises when the Oracle rejects it. A function
  is rejected by the Oracle, and yet the code returns, with a flattened record: for
  \<^verbatim>\<open>_.isObject\<close> a function is an object.
\<close>

theorem C5_function_is_flattened:
  "\<not> isArray sloppy_function
   \<and> \<not> isSerializableInCurrentBrowser chromium sloppy_function
   \<and> preprocessErrorsForSerialization chromium sloppy_function
     = Inr (VObject (Obj Plain
         [(''length'', Data (VNumber 0)), (''name'', Data (VString ''f'')),
          (''arguments'', Data VNull), (''caller'', Data VNull),
          (''prototype'', Data prototype_of_f)]
         (Some example_Function_prototype)))"
  by code_simp

text \<open>
  C5 (amended): for every value that reaches the third branch, that is every value that is
  neither an array nor an object for \<^verbatim>\<open>_.isObject\<close> (undefined, null, the booleans,
  numbers, strings, bigints and symbols; not the functions), the code returns the value
  unchanged if the Oracle accepts it and raises the Unserializable Signal if not.
\<close>

theorem C5_scalar_raises_iff_rejected:
  assumes "\<not> isArray v" and "\<not> isObject v"
  shows "preprocessErrorsForSerialization E v =
           (if isSerializableInCurrentBrowser E v then Inr v else Inl UNSERIALIZABLE)"
  using assms by (simp add: preprocess_scalar isScalar_def)

theorem C5_scalar_raises_iff_rejected_witness:
  "preprocessErrorsForSerialization chromium (VBigInt 12) = Inr (VBigInt 12)
   \<and> preprocessErrorsForSerialization chromium (VSymbol ''id'') = Inl UNSERIALIZABLE"
proof -
  have "isSerializableInCurrentBrowser chromium (VBigInt 12)"
    and "\<not> isSerializableInCurrentBrowser chromium (VSymbol ''id'')"
    by code_simp+
  then show ?thesis
    using C5_scalar_raises_iff_rejected [of "VBigInt 12" chromium]
      C5_scalar_raises_iff_rejected [of "VSymbol ''id''" chromium]
    by simp
qed









text \<open>
  C9: sanitizing the result of sanitizing a composite object gives that result again. Not
  so for the object whose own \<^verbatim>\<open>x\<close> is a function over the 1 of a prototype made with
  \<^verbatim>\<open>Object.create(null)\<close>: the first pass gives the record with \<^verbatim>\<open>x\<close>, the
  function, and the second pass gives the empty record, since on that record the function
  under \<^verbatim>\<open>x\<close> is tested and rejected and no ancestor has an \<^verbatim>\<open>x\<close>.
\<close>

theorem C9_second_pass_differs:
  "preprocessErrorsForSerialization chromium (VObject shadowing_bare)
     = Inr (VObject (Obj Plain [(''x'', Data builtin)] (Some example_Object_prototype)))
   \<and> preprocessErrorsForSerialization chromium
       (VObject (Obj Plain [(''x'', Data builtin)] (Some example_Object_prototype)))
     = Inr (VObject (Obj Plain [] (Some example_Object_prototype)))"
  by code_simp

text \<open>
  C10: when sanitizing a sequence returns, the output holds exactly the elements whose
  sanitized value is truthy, in order. Every scalar element of the input was accepted by
  the Oracle (the call would have raised otherwise), and still a scalar element is in the
  output only if it is truthy: 0, the empty string, false, null, undefined and NaN are
  left out.
\<close>

theorem C10_falsy_elements_are_dropped:
  assumes "preprocessErrorsForSerialization E (VArray xs) = Inr out"
  shows "\<exists>ys. out = VArray ys
    \<and> ys = filter (\<lambda>x. \<exists>r. preprocessErrorsForSerialization E x = Inr r \<and> truthy r) xs
    \<and> (\<forall>x \<in> set xs. isScalar x \<longrightarrow>
          isSerializableInCurrentBrowser E x \<and> (x \<in> set ys) = truthy x)"
proof -
  from assms obtain ys where f: "filterWithPreprocess E xs = Inr ys" and out: "out = VArray ys"
    by (auto split: sum.splits)
  let ?keep = "\<lambda>x. \<exists>r. preprocessErrorsForSerialization E x = Inr r \<and> truthy r"
  from filterWithPreprocess_Inr [OF f] have ys: "ys = filter ?keep xs" .
  have "isSerializableInCurrentBrowser E x \<and> (x \<in> set ys) = truthy x"
    if x: "x \<in> set xs" and s: "isScalar x" for x
  proof -
    from filterWithPreprocess_Inr_all [OF f x] obtain r
      where r: "preprocessErrorsForSerialization E x = Inr r" by blast
    with preprocess_scalar [OF s, of E] have acc: "isSerializableInCurrentBrowser E x"
      by (simp split: if_splits)
    with preprocess_scalar [OF s, of E] have "preprocessErrorsForSerialization E x = Inr x"
      by simp
    then have "?keep x = truthy x" by simp
    with ys x acc show ?thesis by simp
  qed
  with out ys show ?thesis by blast
qed

theorem C10_falsy_elements_are_dropped_witness:
  "preprocessErrorsForSerialization chromium
     (VArray [VNumber 0, VNumber 1, VString [], VNull, VUndefined, VNaN, VBool False, VString ''a''])
     = Inr (VArray [VNumber 1, VString ''a''])
   \<and> isSerializableInCurrentBrowser chromium (VNumber 0)
   \<and> VNumber 0 \<notin> set [VNumber 1, VString ''a'']"
proof -
  let ?xs = "[VNumber 0, VNumber 1, VString [], VNull, VUndefined, VNaN, VBool False, VString ''a'']"
  have run: "preprocessErrorsForSerialization chromium (VArray ?xs)
      = Inr (VArray [VNumber 1, VString ''a''])"
    by code_simp
  from C10_falsy_elements_are_dropped [OF run]
  have "\<forall>x \<in> set ?xs. isScalar x \<longrightarrow>
      isSerializableInCurrentBrowser chromium x \<and> (x \<in> set [VNumber 1, VString ''a'']) = truthy x"
    by blast
  moreover have "VNumber 0 \<in> set ?xs" and "isScalar (VNumber 0)" and "\<not> truthy (VNumber 0)"
    by (simp_all add: isScalar_def)
  ultimately have "isSerializableInCurrentBrowser chromium (VNumber 0)
      \<and> VNumber 0 \<notin> set [VNumber 1, VString ''a'']"
    by blast
  with run show ?thesis by blast
qed

end
